theory Spec2Isabelle
  imports Main "HOL-Library.AList"
begin

section \<open>JavaScript values\<close>

text \<open>
  The hook of \<^verbatim>\<open>src/index.js\<close> transforms plain JavaScript data. A value is one of
  the JSON-like shapes below. An object is the list of its own properties in insertion
  order; inherited properties (methods of \<^verbatim>\<open>Object.prototype\<close>, the
  getter of \<^verbatim>\<open>__proto__\<close>) are outside the embedding. A number is an integer
  (pagination counts, identifiers). The source computes on doubles: sums, differences,
  the floor of a quotient and the decimal text of a number are those of the integers as
  long as every number involved is a safe integer (at most \<open>2^53 - 1\<close> in absolute
  value), and every statement below that fixes such a result carries that bound. Strings
  are lists of characters, with the ASCII letters as the cased ones.
\<close>

datatype jsval =
    JUndefined
  | JNull
  | JBool bool
  | JNum int
  | JStr string
  | JArr "jsval list"
  | JObj "(string \<times> jsval) list"

text \<open>
  A \<^verbatim>\<open>TypeError\<close> is what the engine raises when it reads a property of
  \<^verbatim>\<open>null\<close> or \<^verbatim>\<open>undefined\<close>, calls a method that is not there, or (the file
  is in strict mode) writes a property of a primitive. \<open>Unmodelled\<close> marks the few
  places where the program goes on with a value that \<open>jsval\<close> cannot hold (an array
  with a named property or a hole, a wrapper object, arithmetic on non-numbers); no
  theorem below reads it as a failure of the program.
\<close>

datatype error = TypeError | Unmodelled

definition ebind :: "error + 'a \<Rightarrow> ('a \<Rightarrow> error + 'b) \<Rightarrow> error + 'b" where
  "ebind m f = (case m of Inl e \<Rightarrow> Inl e | Inr v \<Rightarrow> f v)"

fun truthy :: "jsval \<Rightarrow> bool" where
  "truthy JUndefined = False"
| "truthy JNull = False"
| "truthy (JBool b) = b"
| "truthy (JNum n) = (n \<noteq> 0)"
| "truthy (JStr s) = (s \<noteq> [])"
| "truthy (JArr xs) = True"
| "truthy (JObj kvs) = True"

subsection \<open>Numbers as text\<close>

definition digit_char :: "nat \<Rightarrow> char" where
  "digit_char d = ''0123456789'' ! d"

fun show_nat :: "nat \<Rightarrow> string" where
  "show_nat n = (if n < 10 then [digit_char n] else show_nat (n div 10) @ [digit_char (n mod 10)])"

declare show_nat.simps [simp del]

definition show_int :: "int \<Rightarrow> string" where
  "show_int i = (if i < 0 then CHR ''-'' # show_nat (nat (- i)) else show_nat (nat i))"

subsection \<open>Property keys\<close>

text \<open>
  \<^verbatim>\<open>Object.keys\<close> lists the array-index keys first, in ascending numeric order, and
  then the other keys in insertion order. An array index is a canonical decimal numeral
  below \<open>2^32 - 1\<close>.
\<close>

definition is_digit :: "char \<Rightarrow> bool" where
  "is_digit c = (c \<in> set ''0123456789'')"

definition digit_val :: "char \<Rightarrow> nat" where
  "digit_val c = (case map_of (zip ''0123456789'' [0, 1, 2, 3, 4, 5, 6, 7, 8, 9]) c of
                    Some d \<Rightarrow> d | None \<Rightarrow> 0)"

definition nat_of_digits :: "string \<Rightarrow> nat" where
  "nat_of_digits s = foldl (\<lambda>n c. 10 * n + digit_val c) 0 s"

definition is_array_index :: "string \<Rightarrow> bool" where
  "is_array_index s =
     (s \<noteq> [] \<and> list_all is_digit s \<and> (s = ''0'' \<or> hd s \<noteq> CHR ''0'')
      \<and> int (nat_of_digits s) < 4294967295)"

definition own_keys :: "(string \<times> 'a) list \<Rightarrow> string list" where
  "own_keys kvs =
     (let ks = map fst kvs
      in sort_key nat_of_digits (filter is_array_index ks)
         @ filter (\<lambda>k. \<not> is_array_index k) ks)"

definition own :: "(string \<times> jsval) list \<Rightarrow> string \<Rightarrow> jsval" where
  "own kvs k = (case map_of kvs k of Some v \<Rightarrow> v | None \<Rightarrow> JUndefined)"

subsection \<open>Conversion to a string\<close>

fun join_comma :: "string list \<Rightarrow> string" where
  "join_comma [] = []"
| "join_comma [s] = s"
| "join_comma (s # t # ss) = s @ '','' @ join_comma (t # ss)"

fun to_string :: "jsval \<Rightarrow> string" where
  "to_string JUndefined = ''undefined''"
| "to_string JNull = ''null''"
| "to_string (JBool b) = (if b then ''true'' else ''false'')"
| "to_string (JNum n) = show_int n"
| "to_string (JStr s) = s"
| "to_string (JArr xs) =
     join_comma (map (\<lambda>x. if x = JUndefined \<or> x = JNull then [] else to_string x) xs)"
| "to_string (JObj kvs) = ''[object Object]''"

subsection \<open>Reading, writing and deleting properties\<close>

fun get_prop :: "jsval \<Rightarrow> string \<Rightarrow> error + jsval" where
  "get_prop JUndefined k = Inl TypeError"
| "get_prop JNull k = Inl TypeError"
| "get_prop (JObj kvs) k = Inr (own kvs k)"
| "get_prop (JArr xs) k =
     Inr (if k = ''length'' then JNum (int (length xs))
          else if is_array_index k \<and> nat_of_digits k < length xs then xs ! nat_of_digits k
          else JUndefined)"
| "get_prop (JStr s) k =
     Inr (if k = ''length'' then JNum (int (length s))
          else if is_array_index k \<and> nat_of_digits k < length s then JStr [s ! nat_of_digits k]
          else JUndefined)"
| "get_prop (JBool b) k = Inr JUndefined"
| "get_prop (JNum n) k = Inr JUndefined"

text \<open>
  \<^verbatim>\<open>object[k] = v\<close> with a computed key, on an object the hook has created with
  \<^verbatim>\<open>{}\<close>. The key \<^verbatim>\<open>__proto__\<close> names the prototype accessor that every such
  object inherits: the assignment runs its setter and adds no own property, so nothing is
  listed or found under that key afterwards.
\<close>

definition put :: "string \<Rightarrow> jsval \<Rightarrow> (string \<times> jsval) list \<Rightarrow> (string \<times> jsval) list" where
  "put k v kvs = (if k = ''__proto__'' then kvs else AList.update k v kvs)"

text \<open>\<^verbatim>\<open>target[k] = v\<close> in strict mode, for the fixed keys the hook writes.\<close>

fun set_prop :: "jsval \<Rightarrow> string \<Rightarrow> jsval \<Rightarrow> error + jsval" where
  "set_prop (JObj kvs) k v = Inr (JObj (AList.update k v kvs))"
| "set_prop (JArr xs) k v = Inl Unmodelled"
| "set_prop t k v = Inl TypeError"

text \<open>
  \<^verbatim>\<open>delete target[k]\<close> in strict mode: the length of an array or a string and the
  characters of a string cannot be deleted.
\<close>

fun delete_prop :: "jsval \<Rightarrow> string \<Rightarrow> error + jsval" where
  "delete_prop JUndefined k = Inl TypeError"
| "delete_prop JNull k = Inl TypeError"
| "delete_prop (JObj kvs) k = Inr (JObj (AList.delete k kvs))"
| "delete_prop (JArr xs) k =
     (if k = ''length'' then Inl TypeError
      else if is_array_index k \<and> nat_of_digits k < length xs then Inl Unmodelled
      else Inr (JArr xs))"
| "delete_prop (JStr s) k =
     (if k = ''length'' \<or> (is_array_index k \<and> nat_of_digits k < length s) then Inl TypeError
      else Inr (JStr s))"
| "delete_prop t k = Inr t"

text \<open>\<^verbatim>\<open>Object.keys(v)\<close>.\<close>

fun object_keys :: "jsval \<Rightarrow> error + string list" where
  "object_keys JUndefined = Inl TypeError"
| "object_keys JNull = Inl TypeError"
| "object_keys (JObj kvs) = Inr (own_keys kvs)"
| "object_keys (JArr xs) = Inr (map (\<lambda>i. show_nat i) [0..<length xs])"
| "object_keys (JStr s) = Inr (map (\<lambda>i. show_nat i) [0..<length s])"
| "object_keys t = Inr []"

section \<open>The hook and its collaborators\<close>

text \<open>
  \<^verbatim>\<open>hook.service.Model\<close> is the Sequelize model when the service has one. Of a model
  the hook reads the name and, per attribute, the \<^verbatim>\<open>primaryKey\<close> flag.
\<close>

record attribute_descriptor =
  primaryKey :: bool

record model =
  model_name :: string
  model_attributes :: "(string \<times> attribute_descriptor) list"

text \<open>
  An entry of \<^verbatim>\<open>$options.include\<close>: \<^verbatim>\<open>include.as\<close>, \<^verbatim>\<open>include.model\<close> and, of
  \<^verbatim>\<open>include.association\<close>, the fields \<^verbatim>\<open>targetKey\<close>, \<^verbatim>\<open>foreignKey\<close> and
  \<^verbatim>\<open>options.underscored\<close>.
\<close>

record association =
  targetKey :: string
  foreignKey :: string
  underscored :: bool

record include_descriptor =
  inc_as :: string
  inc_model :: model
  inc_association :: association

text \<open>The \<^verbatim>\<open>context\<close> argument of \<^verbatim>\<open>jsonapify\<close>; its \<^verbatim>\<open>include\<close> may be undefined.\<close>

record jsonapify_context =
  ctx_include :: "include_descriptor list option"

text \<open>The options of the hook, each a string or undefined.\<close>

record plain_options =
  identifierKey :: "string option"
  typeKey :: "string option"

record hook =
  hook_method :: string
  hook_path :: string
  hook_service_Model :: "model option"
  hook_service_options :: jsval
  hook_result :: jsval

text \<open>
  What the hook calls and does not define: the constructor \<^verbatim>\<open>JSONAPISerializer\<close> of
  the package \<^verbatim>\<open>jsonapi-serializer\<close>, called with the type name, the data and the
  options \<^verbatim>\<open>{topLevelLinks: {self}, attributes}\<close>, which returns an object built afresh
  or throws; \<^verbatim>\<open>JSON.stringify\<close>; the hexadecimal SHA-256 digest of a string; and the
  \<^verbatim>\<open>$options\<close> property that Sequelize keeps on an instance beside its data (undefined
  when there is none). They are parameters of the embedding.
\<close>

record serializer_opts =
  topLevelLinks_self :: string
  so_attributes :: "string list"

record env =
  env_JSONAPISerializer :: "string \<Rightarrow> jsval \<Rightarrow> serializer_opts \<Rightarrow> error + (string \<times> jsval) list"
  env_stringify :: "jsval \<Rightarrow> jsval"
  env_sha256 :: "string \<Rightarrow> string"
  env_options :: "jsval \<Rightarrow> jsonapify_context option"

text \<open>What \<^verbatim>\<open>jsonapify\<close> returns: \<^verbatim>\<open>{document, links, related?}\<close>.\<close>

record jsonapify_result =
  res_document :: jsval
  res_links :: jsval
  res_related :: "jsval list option"

subsection \<open>Loops that may throw\<close>

fun efold :: "('a \<Rightarrow> 's \<Rightarrow> error + 's) \<Rightarrow> 'a list \<Rightarrow> 's \<Rightarrow> error + 's" where
  "efold f [] s = Inr s"
| "efold f (x # xs) s = ebind (f x s) (efold f xs)"

fun emap :: "('a \<Rightarrow> error + 'b) \<Rightarrow> 'a list \<Rightarrow> error + 'b list" where
  "emap f [] = Inr []"
| "emap f (x # xs) = ebind (f x) (\<lambda>y. ebind (emap f xs) (\<lambda>ys. Inr (y # ys)))"

subsection \<open>\<^verbatim>\<open>Object.assign\<close>\<close>

fun own_entries :: "jsval \<Rightarrow> (string \<times> jsval) list" where
  "own_entries (JObj kvs) = map (\<lambda>k. (k, own kvs k)) (own_keys kvs)"
| "own_entries (JArr xs) = map (\<lambda>i. (show_nat i, xs ! i)) [0..<length xs]"
| "own_entries (JStr s) = map (\<lambda>i. (show_nat i, JStr [s ! i])) [0..<length s]"
| "own_entries t = []"

text \<open>\<^verbatim>\<open>Object.assign(target, source)\<close> on the properties of an object.\<close>

definition assign :: "(string \<times> jsval) list \<Rightarrow> jsval \<Rightarrow> (string \<times> jsval) list" where
  "assign target source = foldl (\<lambda>t (k, v). put k v t) target (own_entries source)"

text \<open>
  \<^verbatim>\<open>Object.assign(item, {links: l})\<close>, which changes \<open>item\<close> in place. A primitive
  target is wrapped into an object that \<open>jsval\<close> does not hold.
\<close>

fun assign_links :: "jsval \<Rightarrow> jsval \<Rightarrow> error + jsval" where
  "assign_links JUndefined l = Inl TypeError"
| "assign_links JNull l = Inl TypeError"
| "assign_links (JObj kvs) l = Inr (JObj (AList.update ''links'' l kvs))"
| "assign_links t l = Inl Unmodelled"

section \<open>Naming and identity\<close>

definition upper_case :: string where
  "upper_case = ''ABCDEFGHIJKLMNOPQRSTUVWXYZ''"

definition lower_case :: string where
  "lower_case = ''abcdefghijklmnopqrstuvwxyz''"

definition to_lower :: "char \<Rightarrow> char" where
  "to_lower c = (case map_of (zip upper_case lower_case) c of Some l \<Rightarrow> l | None \<Rightarrow> c)"

text \<open>
  \<^verbatim>\<open>dasherize(str)\<close>: the first character in lower case, then a dash before every
  upper-case letter, then everything in lower case.
\<close>

definition dasherize :: "string \<Rightarrow> string" where
  "dasherize str =
     (let newStr = (case str of [] \<Rightarrow> [] | c # cs \<Rightarrow> to_lower c # cs);
          newStr = concat (map (\<lambda>c. if c \<in> set upper_case then [CHR ''-'', c] else [c]) newStr)
      in map to_lower newStr)"

text \<open>
  \<^verbatim>\<open>generateFauxId(data)\<close>: the digest of \<^verbatim>\<open>JSON.stringify(data)\<close>. The hash object
  refuses what is not a string (the \<^verbatim>\<open>undefined\<close> that \<^verbatim>\<open>JSON.stringify\<close> returns
  for a value with no JSON text).
\<close>

definition generateFauxId :: "env \<Rightarrow> jsval \<Rightarrow> error + jsval" where
  "generateFauxId e data_v =
     (case env_stringify e data_v of
        JStr s \<Rightarrow> Inr (JStr (env_sha256 e s))
      | _ \<Rightarrow> Inl TypeError)"

definition mustParseAsSequelize :: "hook \<Rightarrow> bool" where
  "mustParseAsSequelize h = (hook_service_Model h \<noteq> None)"

text \<open>
  \<^verbatim>\<open>byExcluded(excluded)\<close>: the list holds the primary key's name, or \<^verbatim>\<open>undefined\<close>
  when the model has none.
\<close>

definition byExcluded :: "string option list \<Rightarrow> string \<Rightarrow> bool" where
  "byExcluded excluded a = (Some a \<notin> set excluded)"

definition byPrimaryKey :: "model \<Rightarrow> string \<Rightarrow> bool" where
  "byPrimaryKey m a =
     (case map_of (model_attributes m) a of Some d \<Rightarrow> primaryKey d | None \<Rightarrow> False)"

text \<open>\<^verbatim>\<open>Object.keys(model.attributes).filter(byPrimaryKey(model))[0]\<close>.\<close>

definition idAttribute :: "model \<Rightarrow> string option" where
  "idAttribute m =
     (case filter (byPrimaryKey m) (own_keys (model_attributes m)) of
        [] \<Rightarrow> None | a # as \<Rightarrow> Some a)"

section \<open>Relationships\<close>

text \<open>The reference \<^verbatim>\<open>{type, [targetKey]: record[targetKey]}\<close> to one related record.\<close>

definition relatedItem :: "include_descriptor \<Rightarrow> jsval \<Rightarrow> error + jsval" where
  "relatedItem inc record_v =
     ebind (get_prop record_v (targetKey (inc_association inc))) (\<lambda>v.
       Inr (JObj (put (targetKey (inc_association inc)) v
                    [(''type'', JStr (model_name (inc_model inc)))])))"

definition createRelationshipObject :: "include_descriptor \<Rightarrow> jsval \<Rightarrow> error + jsval" where
  "createRelationshipObject inc item =
     ebind (get_prop item (inc_as inc)) (\<lambda>associationValue.
       case associationValue of
         JArr records \<Rightarrow> ebind (emap (relatedItem inc) records) (\<lambda>results. Inr (JArr results))
       | JObj kvs \<Rightarrow> relatedItem inc associationValue
       | _ \<Rightarrow> Inr JNull)"

definition relationshipName :: "include_descriptor \<Rightarrow> string" where
  "relationshipName inc =
     (if underscored (inc_association inc)
      then map (\<lambda>c. if c = CHR ''_'' then CHR ''-'' else c) (inc_as inc)
      else inc_as inc)"

section \<open>Deduplication\<close>

text \<open>
  \<^verbatim>\<open>removeDuplicateRecords(collection)\<close>: every item is stored under its \<^verbatim>\<open>id\<close>, which
  as a property key is its string form (\<^verbatim>\<open>1\<close> and \<^verbatim>\<open>'1'\<close> are one key), and the
  stored items are listed in key order. An item whose key is \<^verbatim>\<open>__proto__\<close> is not
  stored.
\<close>

definition store_unique :: "jsval \<Rightarrow> (string \<times> jsval) list \<Rightarrow> error + (string \<times> jsval) list" where
  "store_unique item uniqueRecords =
     ebind (get_prop item ''id'') (\<lambda>i. Inr (put (to_string i) item uniqueRecords))"

definition removeDuplicateRecords :: "jsval list \<Rightarrow> error + jsval list" where
  "removeDuplicateRecords collection =
     ebind (efold store_unique collection []) (\<lambda>uniqueRecords.
       Inr (map (\<lambda>uniqueKey. own uniqueRecords uniqueKey) (own_keys uniqueRecords)))"

text \<open>The key under which \<^verbatim>\<open>uniqueRecords[item.id] = item\<close> stores an item.\<close>

definition id_key :: "jsval \<Rightarrow> string" where
  "id_key item = (case get_prop item ''id'' of Inr i \<Rightarrow> to_string i | Inl e \<Rightarrow> [])"

section \<open>The document assembler\<close>

text \<open>
  The second half of \<^verbatim>\<open>jsonapify\<close>, from the attribute selection on: the call of the
  serializer, the hoist of \<^verbatim>\<open>relationships\<close> out of \<^verbatim>\<open>attributes\<close>, and the result.
\<close>

definition serializer_attributes :: "model \<Rightarrow> string list" where
  "serializer_attributes m =
     (let excluded = [idAttribute m]
      in filter (byExcluded excluded) (own_keys (model_attributes m)) @ [''relationships''])"

definition hoist_relationships :: "jsval \<Rightarrow> error + jsval" where
  "hoist_relationships json_data =
     ebind (get_prop json_data ''attributes'') (\<lambda>attrs.
       if truthy attrs then
         ebind (get_prop attrs ''relationships'') (\<lambda>rel.
           if truthy rel then
             ebind (set_prop json_data ''relationships'' rel) (\<lambda>d1.
             ebind (delete_prop attrs ''relationships'') (\<lambda>attrs'.
               set_prop d1 ''attributes'' attrs'))
           else Inr json_data)
       else Inr json_data)"

definition jsonapify_serialize ::
  "env \<Rightarrow> jsval \<Rightarrow> model \<Rightarrow> string \<Rightarrow> jsval list \<Rightarrow> error + jsonapify_result" where
  "jsonapify_serialize e data_v m selfUrl includedData =
     ebind (env_JSONAPISerializer e (model_name m) data_v
              \<lparr>topLevelLinks_self = ''/'' @ selfUrl, so_attributes = serializer_attributes m\<rparr>)
       (\<lambda>json.
     ebind (hoist_relationships (own json ''data'')) (\<lambda>document.
       Inr \<lparr>res_document = document, res_links = own json ''links'',
            res_related = (if includedData \<noteq> [] then Some includedData else None)\<rparr>))"

text \<open>
  \<^verbatim>\<open>parseRelationships(data, includedData)(include)\<close>. The record and the accumulator
  are changed in place; here they are passed and returned. The nested call
  \<^verbatim>\<open>jsonapify(data[include.as], include.model, ..., {include: []})\<close> has an empty
  include list, so it is the second half of \<^verbatim>\<open>jsonapify\<close> with an empty accumulator.
\<close>

definition include_related ::
  "env \<Rightarrow> include_descriptor \<Rightarrow> jsval \<Rightarrow> jsval list \<Rightarrow> error + jsval list" where
  "include_related e inc embedded includedData =
     ebind (get_prop embedded ''id'') (\<lambda>eid.
     ebind (jsonapify_serialize e embedded (inc_model inc)
              (model_name (inc_model inc) @ ''/'' @ to_string eid) []) (\<lambda>serializedRelationship.
     ebind (case res_document serializedRelationship of
              JArr items \<Rightarrow>
                ebind (emap (\<lambda>item. ebind (get_prop item ''id'') (\<lambda>iid.
                               assign_links item
                                 (JObj [(''self'', JStr (''/'' @ model_name (inc_model inc)
                                                         @ ''/'' @ to_string iid))])))
                         items)
                  (\<lambda>linked. Inr (includedData @ linked))
            | doc \<Rightarrow>
                Inr (includedData @
                     [JObj (AList.update ''links'' (res_links serializedRelationship)
                              (assign [] doc))])) (\<lambda>includedData'.
     ebind (delete_prop embedded (foreignKey (inc_association inc))) (\<lambda>embedded'.
       Inr includedData'))))"

definition parseRelationships ::
  "env \<Rightarrow> include_descriptor \<Rightarrow> jsval \<times> jsval list \<Rightarrow> error + (jsval \<times> jsval list)" where
  "parseRelationships e inc st =
     (case st of (data_v, includedData) \<Rightarrow>
     ebind (createRelationshipObject inc data_v) (\<lambda>reference.
     ebind (get_prop data_v (inc_as inc)) (\<lambda>embedded.
     ebind (if embedded \<noteq> JNull then include_related e inc embedded includedData
            else Inr includedData) (\<lambda>includedData'.
     ebind (delete_prop data_v (foreignKey (inc_association inc))) (\<lambda>data1.
     ebind (delete_prop data1 (inc_as inc)) (\<lambda>data2.
       if reference \<noteq> JNull then
         ebind (get_prop data2 ''relationships'') (\<lambda>old.
         ebind (set_prop data2 ''relationships''
                  (JObj (put (relationshipName inc) (JObj [(''data'', reference)])
                           (assign [] old)))) (\<lambda>data3.
           Inr (data3, includedData')))
       else Inr (data2, includedData')))))))"

text \<open>
  \<^verbatim>\<open>jsonapify(data, model, selfUrl, context)\<close>; \<open>None\<close> is an undefined context,
  on which reading \<^verbatim>\<open>context.include\<close> throws. The first half runs
  \<^verbatim>\<open>parseRelationships\<close> over a non-empty include list.
\<close>

definition process_includes ::
  "env \<Rightarrow> jsval \<Rightarrow> jsonapify_context \<Rightarrow> error + (jsval \<times> jsval list)" where
  "process_includes e data_v c =
     (case ctx_include c of
        Some (i # is) \<Rightarrow> efold (parseRelationships e) (i # is) (data_v, [])
      | _ \<Rightarrow> Inr (data_v, []))"

definition jsonapify ::
  "env \<Rightarrow> jsval \<Rightarrow> model \<Rightarrow> string \<Rightarrow> jsonapify_context option \<Rightarrow> error + jsonapify_result" where
  "jsonapify e data_v m selfUrl context_v =
     (case context_v of
        None \<Rightarrow> Inl TypeError
      | Some c \<Rightarrow>
          ebind (process_includes e data_v c)
            (\<lambda>(data', includedData). jsonapify_serialize e data' m selfUrl includedData))"

text \<open>
  The resource objects of a document (one, or the elements of a collection) and the keys
  of the \<^verbatim>\<open>attributes\<close> mapping of a resource object.
\<close>

definition resources_of :: "jsval \<Rightarrow> jsval list" where
  "resources_of document = (case document of JArr rs \<Rightarrow> rs | r \<Rightarrow> [r])"

definition attribute_keys :: "jsval \<Rightarrow> string list" where
  "attribute_keys r =
     (case r of
        JObj kvs \<Rightarrow> (case own kvs ''attributes'' of JObj a \<Rightarrow> map fst a | _ \<Rightarrow> [])
      | _ \<Rightarrow> [])"

text \<open>
  What a serializer does with the selection it is given: it renders the selection
  through \<open>kf\<close> when every attribute key of every resource object it returns is the
  rendering \<open>kf a\<close> of a selected attribute \<open>a\<close>. The serializer the hook calls
  renders attribute names in dash-case (the README shows \<^verbatim>\<open>created-at\<close> and
  \<^verbatim>\<open>parent-topic-id\<close>).
\<close>

definition renders_selection ::
  "(string \<Rightarrow> string) \<Rightarrow> (string \<Rightarrow> jsval \<Rightarrow> serializer_opts \<Rightarrow> error + (string \<times> jsval) list) \<Rightarrow> bool" where
  "renders_selection kf ser =
     (\<forall>type_name records opts json. ser type_name records opts = Inr json \<longrightarrow>
        (\<forall>r \<in> set (resources_of (own json ''data'')).
           set (attribute_keys r) \<subseteq> kf ` set (so_attributes opts)))"

section \<open>Metadata\<close>

text \<open>\<^verbatim>\<open>createMetadata(hook)\<close>: the loop moves one key after the other.\<close>

definition move_key :: "string \<Rightarrow> (string \<times> jsval) list \<times> jsval \<Rightarrow> error + ((string \<times> jsval) list \<times> jsval)" where
  "move_key k st =
     (case st of (meta, r) \<Rightarrow>
        ebind (get_prop r k) (\<lambda>v.
        ebind (delete_prop r k) (\<lambda>r'.
          Inr (put (dasherize k) v meta, r'))))"

definition createMetadata :: "hook \<Rightarrow> error + hook" where
  "createMetadata h =
     ebind (object_keys (hook_result h)) (\<lambda>keys.
       let metaKeys = filter (\<lambda>k. k \<notin> set [''data'', ''included'', ''meta'', ''links'']) keys
       in if metaKeys \<noteq> [] then
            ebind (efold move_key metaKeys ([], hook_result h)) (\<lambda>(meta, r).
            ebind (set_prop r ''meta'' (JObj meta)) (\<lambda>r'.
              Inr (h\<lparr>hook_result := r'\<rparr>)))
          else Inr h)"

section \<open>Pagination links\<close>

text \<open>
  \<^verbatim>\<open>Math.floor(total / limit) * limit\<close>, as the text appended to a link. With
  \<open>limit = 0\<close> the quotient is infinite or not a number, and its product with zero
  is \<^verbatim>\<open>NaN\<close>. The links below are computed on the integers; that is what the
  source computes on doubles when the three counts are not negative and the counts and
  the sum \<open>skip + limit\<close> are at most \<open>2^53 - 1\<close>.
\<close>

definition last_page_skip :: "int \<Rightarrow> int \<Rightarrow> string" where
  "last_page_skip tot lim =
     (if lim = 0 then ''NaN'' else show_int ((tot div lim) * lim))"

definition pagination_links :: "string \<Rightarrow> int \<Rightarrow> int \<Rightarrow> int \<Rightarrow> (string \<times> jsval) list" where
  "pagination_links p skip lim tot =
     (let links = [];
          links = (if skip \<ge> lim
                   then AList.update ''first'' (JStr (''/'' @ p)) links else links);
          links = (if skip + lim < tot
                   then AList.update ''next''
                          (JStr (''/'' @ p @ ''?$skip='' @ show_int (skip + lim))) links
                   else links);
          links = (if skip + lim > lim
                   then AList.update ''prev''
                          (JStr (''/'' @ p @ ''?$skip='' @ show_int (skip - lim))) links
                   else links);
          links = (if skip + lim < tot
                   then AList.update ''last''
                          (JStr (''/'' @ p @ ''?$skip='' @ last_page_skip tot lim)) links
                   else links)
      in links)"

text \<open>
  \<^verbatim>\<open>createPagination(hook)\<close>. The three fields are compared and added as numbers;
  a defined field that is not a number is outside the embedding.
\<close>

definition createPagination :: "hook \<Rightarrow> error + hook" where
  "createPagination h =
     ebind (get_prop (hook_result h) ''skip'') (\<lambda>skip.
     ebind (get_prop (hook_result h) ''total'') (\<lambda>tot.
     ebind (get_prop (hook_result h) ''limit'') (\<lambda>lim.
       if skip \<noteq> JUndefined \<and> tot \<noteq> JUndefined \<and> lim \<noteq> JUndefined then
         (case (skip, tot, lim) of
            (JNum s, JNum t, JNum l) \<Rightarrow>
              ebind (set_prop (hook_result h) ''links'' (JObj (pagination_links (hook_path h) s l t)))
                (\<lambda>r. Inr (h\<lparr>hook_result := r\<rparr>))
          | _ \<Rightarrow> Inl Unmodelled)
       else Inr h)))"

section \<open>The plain-object serializer\<close>

text \<open>
  \<^verbatim>\<open>serializePlainObject(item, options, hook)\<close>. An option is used when it is truthy,
  that is a non-empty string; the filter compares each key with the options as they are.
\<close>

definition copy_attribute :: "jsval \<Rightarrow> string \<Rightarrow> (string \<times> jsval) list \<Rightarrow> error + (string \<times> jsval) list" where
  "copy_attribute item k attributes =
     ebind (get_prop item k) (\<lambda>v. Inr (put (dasherize k) v attributes))"

definition serializePlainObject :: "env \<Rightarrow> jsval \<Rightarrow> plain_options \<Rightarrow> hook \<Rightarrow> error + jsval" where
  "serializePlainObject e item options h =
     ebind (case identifierKey options of
              Some k \<Rightarrow> if k \<noteq> [] then get_prop item k else generateFauxId e item
            | None \<Rightarrow> generateFauxId e item) (\<lambda>new_id.
     ebind (case typeKey options of
              Some k \<Rightarrow> if k \<noteq> [] then get_prop item k
                        else get_prop (hook_service_options h) ''name''
            | None \<Rightarrow> get_prop (hook_service_options h) ''name'') (\<lambda>new_type.
     ebind (object_keys item) (\<lambda>keys.
     ebind (efold (copy_attribute item)
              (filter (\<lambda>k. Some k \<noteq> identifierKey options \<and> Some k \<noteq> typeKey options) keys) [])
       (\<lambda>attributes.
       Inr (JObj [(''id'', new_id), (''type'', new_type), (''attributes'', JObj attributes),
                  (''links'', JObj [(''self'', JStr (''/'' @ hook_path h @ ''/''
                                                    @ to_string new_id))])])))))"

section \<open>The entry points\<close>

text \<open>\<^verbatim>\<open>data.$options\<close> of an element of the result, or of the result itself.\<close>

definition instance_options :: "env \<Rightarrow> jsval \<Rightarrow> error + jsonapify_context option" where
  "instance_options e v =
     (if v = JUndefined \<or> v = JNull then Inl TypeError else Inr (env_options e v))"

text \<open>\<^verbatim>\<open>hook.result.data[index] = v\<close>, for an index of the array.\<close>

definition set_data_at :: "jsval \<Rightarrow> nat \<Rightarrow> jsval \<Rightarrow> error + jsval" where
  "set_data_at r i v =
     ebind (get_prop r ''data'') (\<lambda>d.
       case d of
         JArr xs \<Rightarrow> if i < length xs then set_prop r ''data'' (JArr (xs[i := v]))
                    else Inl Unmodelled
       | JUndefined \<Rightarrow> Inl TypeError
       | JNull \<Rightarrow> Inl TypeError
       | _ \<Rightarrow> Inl Unmodelled)"

text \<open>\<^verbatim>\<open>hook.result.included = hook.result.included.concat(related)\<close>.\<close>

definition concat_included :: "jsval \<Rightarrow> jsval list \<Rightarrow> error + jsval" where
  "concat_included r related =
     ebind (get_prop r ''included'') (\<lambda>inc.
       case inc of
         JArr xs \<Rightarrow> set_prop r ''included'' (JArr (xs @ related))
       | JUndefined \<Rightarrow> Inl TypeError
       | JNull \<Rightarrow> Inl TypeError
       | _ \<Rightarrow> Inl Unmodelled)"

text \<open>The body of the loop of \<^verbatim>\<open>jsonapifyViaFind\<close> over \<^verbatim>\<open>hook.result.data\<close>.\<close>

definition find_step :: "env \<Rightarrow> model \<Rightarrow> jsval \<times> nat \<Rightarrow> hook \<Rightarrow> error + hook" where
  "find_step e m entry h =
     (case entry of (data_v, index) \<Rightarrow>
     (let jsonItem = env_stringify e data_v in
     ebind (get_prop jsonItem ''id'') (\<lambda>jid.
     ebind (instance_options e data_v) (\<lambda>options_v.
     ebind (jsonapify e jsonItem m (hook_path h @ ''/'' @ to_string jid) options_v) (\<lambda>serialized.
     ebind (set_data_at (hook_result h) index (res_document serialized)) (\<lambda>r1.
     ebind (case res_related serialized of
              Some related \<Rightarrow> concat_included r1 related
            | None \<Rightarrow> Inr r1) (\<lambda>r2.
       if truthy (res_links serialized) then
         ebind (set_prop (res_document serialized) ''links'' (res_links serialized)) (\<lambda>document.
         ebind (set_data_at r2 index document) (\<lambda>r3.
           createPagination (h\<lparr>hook_result := r3\<rparr>)))
       else Inr (h\<lparr>hook_result := r2\<rparr>))))))))"

text \<open>
  \<^verbatim>\<open>jsonapifyViaFind(hook, options)\<close>. With a model, a result that is itself an array
  takes the property \<^verbatim>\<open>included\<close> but has no \<^verbatim>\<open>data\<close> to iterate, which throws.
\<close>

definition jsonapifyViaFind :: "env \<Rightarrow> hook \<Rightarrow> plain_options \<Rightarrow> error + hook" where
  "jsonapifyViaFind e h options =
     (case hook_service_Model h of
        Some m \<Rightarrow>
          ebind (case hook_result h of
                   JArr rs \<Rightarrow> Inl TypeError
                 | r \<Rightarrow> set_prop r ''included'' (JArr [])) (\<lambda>r0.
          ebind (get_prop r0 ''data'') (\<lambda>d.
            case d of
              JArr items \<Rightarrow>
                ebind (efold (find_step e m) (zip items [0..<length items])
                         (h\<lparr>hook_result := r0\<rparr>)) (\<lambda>h1.
                ebind (get_prop (hook_result h1) ''included'') (\<lambda>inc.
                  case inc of
                    JArr included \<Rightarrow>
                      ebind (if included = [] then delete_prop (hook_result h1) ''included''
                             else ebind (removeDuplicateRecords included) (\<lambda>unique.
                                    set_prop (hook_result h1) ''included'' (JArr unique)))
                        (\<lambda>r2. createMetadata (h1\<lparr>hook_result := r2\<rparr>))
                  | _ \<Rightarrow> Inl Unmodelled))
            | _ \<Rightarrow> Inl TypeError))
      | None \<Rightarrow>
          (case hook_result h of
             JArr items \<Rightarrow>
               if length items > 1 then
                 ebind (emap (\<lambda>item. serializePlainObject e item options h) items) (\<lambda>ds.
                   Inr (h\<lparr>hook_result := JObj [(''data'', JArr ds)]\<rparr>))
               else Inr (h\<lparr>hook_result := JObj [(''data'', JArr [])]\<rparr>)
           | r \<Rightarrow>
               ebind (object_keys r) (\<lambda>keys.
                 if keys \<noteq> [] then
                   ebind (serializePlainObject e r options h) (\<lambda>d.
                     Inr (h\<lparr>hook_result := JObj [(''data'', JArr [d])]\<rparr>))
                 else Inr (h\<lparr>hook_result := JObj [(''data'', JArr [])]\<rparr>))))"

text \<open>\<^verbatim>\<open>jsonapifyViaGet(hook, options)\<close>.\<close>

definition jsonapifyViaGet :: "env \<Rightarrow> hook \<Rightarrow> plain_options \<Rightarrow> error + hook" where
  "jsonapifyViaGet e h options =
     (case hook_service_Model h of
        Some m \<Rightarrow>
          (let jsonItem = env_stringify e (hook_result h) in
          ebind (get_prop jsonItem ''id'') (\<lambda>jid.
          ebind (instance_options e (hook_result h)) (\<lambda>options_v.
          ebind (jsonapify e jsonItem m (hook_path h @ ''/'' @ to_string jid) options_v)
            (\<lambda>serialized.
            let result = [(''data'', res_document serialized),
                          (''included'', case res_related serialized of
                                           Some related \<Rightarrow> JArr related
                                         | None \<Rightarrow> JUndefined)];
                result = (case res_related serialized of
                            Some related \<Rightarrow>
                              if related = [] then AList.delete ''included'' result else result
                          | None \<Rightarrow> result)
            in
            ebind (if truthy (res_links serialized) then
                     ebind (set_prop (res_document serialized) ''links'' (res_links serialized))
                       (\<lambda>document.
                     ebind (set_prop (res_links serialized) ''parent''
                              (JStr (''/'' @ model_name m))) (\<lambda>links.
                     ebind (set_prop document ''links'' links) (\<lambda>document'.
                       Inr (AList.update ''data'' document' result))))
                   else Inr result) (\<lambda>result'.
              createMetadata (h\<lparr>hook_result := JObj result'\<rparr>))))))
      | None \<Rightarrow>
          ebind (serializePlainObject e (hook_result h) options h) (\<lambda>d.
          ebind (set_prop (hook_result h) ''data'' d) (\<lambda>r.
            Inr (h\<lparr>hook_result := r\<rparr>))))"

text \<open>
  The exported hook: \<^verbatim>\<open>find\<close> and \<^verbatim>\<open>get\<close> are dispatched, every other method passes
  through; the promise it returns is already resolved with the hook.
\<close>

definition jsonapify_hook :: "env \<Rightarrow> plain_options \<Rightarrow> hook \<Rightarrow> error + hook" where
  "jsonapify_hook e options h =
     (if hook_method h = ''find'' then jsonapifyViaFind e h options
      else if hook_method h = ''get'' then jsonapifyViaGet e h options
      else Inr h)"

section \<open>A reference environment\<close>

text \<open>
  Modelled from the spec: the generic resource-serialization step that the assembler
  delegates to is the package \<^verbatim>\<open>jsonapi-serializer\<close>, which is not part of the
  repository. The spec describes it as building \<^verbatim>\<open>{type, id, attributes}\<close> per record,
  with the attributes selected by name, plus \<^verbatim>\<open>links.self\<close>; a collection gives a
  sequence of resource objects and \<^verbatim>\<open>null\<close> gives \<^verbatim>\<open>null\<close>. The theorems below are
  stated for every serializer; this one instantiates them in examples.
\<close>

definition spec_resource :: "string \<Rightarrow> string list \<Rightarrow> jsval \<Rightarrow> jsval" where
  "spec_resource type_name attrs r =
     (if r = JNull \<or> r = JUndefined then JNull
      else JObj [(''type'', JStr type_name),
                 (''id'', JStr (to_string (own (own_entries r) ''id''))),
                 (''attributes'',
                    JObj (map (\<lambda>a. (a, own (own_entries r) a))
                            (filter (\<lambda>a. map_of (own_entries r) a \<noteq> None) attrs)))])"

definition spec_serializer :: "string \<Rightarrow> jsval \<Rightarrow> serializer_opts \<Rightarrow> error + (string \<times> jsval) list" where
  "spec_serializer type_name records opts =
     Inr [(''links'', JObj [(''self'', JStr (topLevelLinks_self opts))]),
          (''data'', case records of
                       JArr rs \<Rightarrow> JArr (map (spec_resource type_name (so_attributes opts)) rs)
                     | r \<Rightarrow> spec_resource type_name (so_attributes opts) r)]"

text \<open>
  Stand-ins for \<^verbatim>\<open>JSON.stringify\<close> (no escapes beyond the quote and the backslash) and
  for the digest, for the same examples.
\<close>

definition json_quote :: "string \<Rightarrow> string" where
  "json_quote s =
     CHR 0x22 # concat (map (\<lambda>c. if c = CHR 0x22 \<or> c = CHR 0x5C then [CHR 0x5C, c] else [c]) s)
       @ [CHR 0x22]"

fun json_text :: "jsval \<Rightarrow> string" where
  "json_text JUndefined = ''null''"
| "json_text JNull = ''null''"
| "json_text (JBool b) = (if b then ''true'' else ''false'')"
| "json_text (JNum n) = show_int n"
| "json_text (JStr s) = json_quote s"
| "json_text (JArr xs) = ''['' @ join_comma (map json_text xs) @ '']''"
| "json_text (JObj kvs) =
     ''{'' @ join_comma (map (\<lambda>kv. json_quote (fst kv) @ '':'' @ json_text (snd kv))
                           (filter (\<lambda>kv. snd kv \<noteq> JUndefined) kvs)) @ ''}''"

definition example_env :: env where
  "example_env =
     \<lparr>env_JSONAPISerializer = spec_serializer,
      env_stringify = (\<lambda>v. if v = JUndefined then JUndefined else JStr (json_text v)),
      env_sha256 = (\<lambda>s. ''sha256:'' @ show_nat (length s)),
      env_options = (\<lambda>v. Some \<lparr>ctx_include = None\<rparr>)\<rparr>"

text \<open>
  Modelled from the spec: the same serialization step with the naming of the spec's
  section 8, where an attribute \<^verbatim>\<open>createdAt\<close> renders as \<^verbatim>\<open>created-at\<close>: every selected
  attribute the record has is emitted under its dash-cased name.
\<close>

definition dash_resource :: "string \<Rightarrow> string list \<Rightarrow> jsval \<Rightarrow> jsval" where
  "dash_resource type_name attrs r =
     (if r = JNull \<or> r = JUndefined then JNull
      else JObj [(''type'', JStr type_name),
                 (''id'', JStr (to_string (own (own_entries r) ''id''))),
                 (''attributes'',
                    JObj (foldl (\<lambda>attributes a. put (dasherize a) (own (own_entries r) a) attributes) []
                            (filter (\<lambda>a. map_of (own_entries r) a \<noteq> None) attrs)))])"

definition dash_serializer :: "string \<Rightarrow> jsval \<Rightarrow> serializer_opts \<Rightarrow> error + (string \<times> jsval) list" where
  "dash_serializer type_name records opts =
     Inr [(''links'', JObj [(''self'', JStr (topLevelLinks_self opts))]),
          (''data'', case records of
                       JArr rs \<Rightarrow> JArr (map (dash_resource type_name (so_attributes opts)) rs)
                     | r \<Rightarrow> dash_resource type_name (so_attributes opts) r)]"

definition dash_env :: env where
  "dash_env = example_env\<lparr>env_JSONAPISerializer := dash_serializer\<rparr>"

section \<open>Example inputs\<close>

definition topics_page :: hook where
  "topics_page =
     \<lparr>hook_method = ''find'', hook_path = ''topics'', hook_service_Model = None,
      hook_service_options = JObj [(''name'', JStr ''topics'')],
      hook_result = JObj [(''total'', JNum 15), (''limit'', JNum 2), (''skip'', JNum 0),
                          (''data'', JArr [])]\<rparr>"

definition short_page :: hook where
  "short_page =
     \<lparr>hook_method = ''find'', hook_path = ''topics'', hook_service_Model = None,
      hook_service_options = JObj [(''name'', JStr ''topics'')],
      hook_result = JObj [(''total'', JNum 5), (''limit'', JNum 10), (''skip'', JNum 0),
                          (''data'', JArr [])]\<rparr>"

text \<open>
  Two parents embed the same related topic \<^verbatim>\<open>sports\<close>; the second copy was serialized
  later and differs in an attribute.
\<close>

definition included_twice :: "jsval list" where
  "included_twice =
     [JObj [(''type'', JStr ''topics''), (''id'', JStr ''sports''),
            (''attributes'', JObj [(''name'', JStr ''Sports'')])],
      JObj [(''type'', JStr ''topics''), (''id'', JStr ''music''),
            (''attributes'', JObj [(''name'', JStr ''Music'')])],
      JObj [(''type'', JStr ''topics''), (''id'', JStr ''sports''),
            (''attributes'', JObj [(''name'', JStr ''Sport'')])]]"


text \<open>
  The self-referencing model of the README: a topic has a parent topic, embedded under
  \<^verbatim>\<open>parentTopic\<close>.
\<close>

definition topics_model :: model where
  "topics_model =
     \<lparr>model_name = ''topics'',
      model_attributes = [(''id'', \<lparr>primaryKey = True\<rparr>), (''name'', \<lparr>primaryKey = False\<rparr>),
                          (''parentTopicId'', \<lparr>primaryKey = False\<rparr>)]\<rparr>"

definition parent_include :: include_descriptor where
  "parent_include =
     \<lparr>inc_as = ''parentTopic'', inc_model = topics_model,
      inc_association = \<lparr>targetKey = ''id'', foreignKey = ''parentTopicId'', underscored = False\<rparr>\<rparr>"

definition sports_cars :: jsval where
  "sports_cars =
     JObj [(''id'', JStr ''sports-cars''), (''name'', JStr ''Cars''),
           (''parentTopicId'', JStr ''sports''),
           (''parentTopic'', JObj [(''id'', JStr ''sports''), (''name'', JStr ''Sports''),
                                   (''parentTopicId'', JNull)])]"

text \<open>A topic that was loaded without its parent: the record has no \<^verbatim>\<open>parentTopic\<close>.\<close>

definition orphan_topic :: "(string \<times> jsval) list" where
  "orphan_topic = [(''id'', JStr ''sports''), (''name'', JStr ''Sports''),
                   (''parentTopicId'', JNull)]"

text \<open>A \<^verbatim>\<open>find\<close> on a service without a model that returns one record.\<close>

definition single_find :: hook where
  "single_find =
     \<lparr>hook_method = ''find'', hook_path = ''topics'', hook_service_Model = None,
      hook_service_options = JObj [(''name'', JStr ''topics'')],
      hook_result = JArr [JObj [(''title'', JStr ''Cars'')]]\<rparr>"

text \<open>A model none of whose attributes is flagged as primary key.\<close>

definition keyless_model :: model where
  "keyless_model = \<lparr>model_name = ''logs'',
      model_attributes = [(''level'', \<lparr>primaryKey = False\<rparr>), (''message'', \<lparr>primaryKey = False\<rparr>)]\<rparr>"

text \<open>A model whose primary key is the attribute \<^verbatim>\<open>relationships\<close>.\<close>

definition odd_model :: model where
  "odd_model = \<lparr>model_name = ''odd'',
      model_attributes = [(''relationships'', \<lparr>primaryKey = True\<rparr>), (''label'', \<lparr>primaryKey = False\<rparr>)]\<rparr>"

text \<open>A \<^verbatim>\<open>get\<close> result on a service without a model.\<close>

definition car_get :: hook where
  "car_get =
     \<lparr>hook_method = ''get'', hook_path = ''topics'', hook_service_Model = None,
      hook_service_options = JObj [(''name'', JStr ''topics'')],
      hook_result = JObj [(''id'', JNum 1), (''title'', JStr ''Cars'')]\<rparr>"

text \<open>A model with the primary key \<^verbatim>\<open>id\<close> and a second attribute \<^verbatim>\<open>Id\<close>.\<close>

definition twin_model :: model where
  "twin_model =
     \<lparr>model_name = ''twins'',
      model_attributes = [(''id'', \<lparr>primaryKey = True\<rparr>), (''Id'', \<lparr>primaryKey = False\<rparr>)]\<rparr>"

section \<open>Properties\<close>

lemma ebind_Inr [simp]: "ebind (Inr v) f = f v"
  by (simp add: ebind_def)

lemma ebind_Inl [simp]: "ebind (Inl e) f = Inl e"
  by (simp add: ebind_def)

lemma own_simps [simp]:
  "own [] k = JUndefined"
  "own ((k', v) # kvs) k = (if k' = k then v else own kvs k)"
  by (auto simp: own_def)

lemma own_update:
  "own (AList.update k v al) k' = (if k' = k then v else own al k')"
  by (simp add: own_def update_conv')

lemma ebind_eq_Inr: "ebind x f = Inr y \<longleftrightarrow> (\<exists>v. x = Inr v \<and> f v = Inr y)"
  by (cases x) simp_all

lemma not_index_literals [simp]:
  "\<not> is_array_index ''attributes''" "\<not> is_array_index ''relationships''"
  "\<not> is_array_index ''data''" "\<not> is_array_index ''included''"
  by (simp_all add: is_array_index_def is_digit_def)

lemma own_keys_nonempty: "own_keys kvs \<noteq> [] \<longleftrightarrow> kvs \<noteq> []"
  by (cases kvs) (auto simp: own_keys_def Let_def)


subsection \<open>Pagination links\<close>

lemma createPagination_numbers:
  assumes "hook_result h = JObj r"
    and "own r ''skip'' = JNum skip" and "own r ''limit'' = JNum lim"
    and "own r ''total'' = JNum tot"
  shows "createPagination h =
           Inr (h\<lparr>hook_result :=
                  JObj (AList.update ''links'' (JObj (pagination_links (hook_path h) skip lim tot)) r)\<rparr>)"
  using assms by (simp add: createPagination_def)

text \<open>
  C1. When the result is an object whose \<^verbatim>\<open>skip\<close>, \<^verbatim>\<open>limit\<close> and \<^verbatim>\<open>total\<close> are
  integers, \<^verbatim>\<open>createPagination\<close> sets \<^verbatim>\<open>links\<close> to exactly this object: \<^verbatim>\<open>first\<close> is
  the path if and only if \<open>skip \<ge> limit\<close>; \<^verbatim>\<open>next\<close> points to \<open>skip + limit\<close> if and
  only if \<open>skip + limit < total\<close>; \<^verbatim>\<open>prev\<close> points to \<open>skip - limit\<close> if and only if
  \<open>skip + limit > limit\<close>; \<^verbatim>\<open>last\<close> points to \<open>floor(total / limit) * limit\<close> if and
  only if \<open>skip + limit < total\<close>. No other key is set. The counts are not negative,
  as in the claim, and the counts and the sum \<open>skip + limit\<close> are safe integers (at
  most \<open>2^53 - 1\<close>): there the doubles of the source add, subtract, compare and print as
  the integers do, and the floor of the quotient is the integer quotient; with
  \<open>limit = 0\<close> the JavaScript product is \<^verbatim>\<open>NaN\<close>.
\<close>

theorem createPagination_links:
  assumes "hook_result h = JObj r"
    and "own r ''skip'' = JNum skip" and "own r ''limit'' = JNum lim"
    and "own r ''total'' = JNum tot"
    and "0 \<le> skip" and "0 \<le> lim" and "0 \<le> tot"
    and "skip + lim \<le> 9007199254740991" and "tot \<le> 9007199254740991"
  shows "createPagination h =
           Inr (h\<lparr>hook_result := JObj (AList.update ''links''
             (JObj ((if skip \<ge> lim then [(''first'', JStr (''/'' @ hook_path h))] else [])
                  @ (if skip + lim < tot
                     then [(''next'', JStr (''/'' @ hook_path h @ ''?$skip=''
                                            @ show_int (skip + lim)))]
                     else [])
                  @ (if skip + lim > lim
                     then [(''prev'', JStr (''/'' @ hook_path h @ ''?$skip=''
                                            @ show_int (skip - lim)))]
                     else [])
                  @ (if skip + lim < tot
                     then [(''last'', JStr (''/'' @ hook_path h @ ''?$skip=''
                              @ (if lim = 0 then ''NaN'' else show_int ((tot div lim) * lim))))]
                     else []))) r)\<rparr>)"
  using assms by (simp add: createPagination_def pagination_links_def last_page_skip_def)

text \<open>
  The example of the claim: \<^verbatim>\<open>{skip: 0, limit: 2, total: 15}\<close> over the path
  \<^verbatim>\<open>topics\<close> gives \<^verbatim>\<open>next\<close> and \<^verbatim>\<open>last\<close> and neither \<^verbatim>\<open>first\<close> nor \<^verbatim>\<open>prev\<close>.
\<close>

theorem createPagination_links_witness:
  "createPagination topics_page =
     Inr (topics_page\<lparr>hook_result :=
            JObj [(''total'', JNum 15), (''limit'', JNum 2), (''skip'', JNum 0),
                  (''data'', JArr []),
                  (''links'', JObj [(''next'', JStr ''/topics?$skip=2''),
                                    (''last'', JStr ''/topics?$skip=14'')])]\<rparr>)"
  using createPagination_links [of topics_page _ 0 2 15]
  by (simp add: topics_page_def show_int_def show_nat.simps digit_char_def)

text \<open>
  C9. When the three fields are defined (integers), the result always gets a
  \<^verbatim>\<open>links\<close> field, whatever the four conditions say; when none of them holds the field
  is the empty object.
\<close>

theorem createPagination_always_sets_links:
  assumes "hook_result h = JObj r"
    and "own r ''skip'' = JNum skip" and "own r ''limit'' = JNum lim"
    and "own r ''total'' = JNum tot"
  shows "\<exists>links. createPagination h = Inr (h\<lparr>hook_result := JObj (AList.update ''links'' (JObj links) r)\<rparr>)
           \<and> own (AList.update ''links'' (JObj links) r) ''links'' = JObj links
           \<and> (\<not> skip \<ge> lim \<and> \<not> skip + lim < tot \<and> \<not> skip + lim > lim \<longrightarrow> links = [])"
proof -
  have "own (AList.update ''links'' v r) ''links'' = v" for v
    by (simp add: own_def update_conv')
  moreover have "\<not> skip \<ge> lim \<and> \<not> skip + lim < tot \<and> \<not> skip + lim > lim
                   \<longrightarrow> pagination_links (hook_path h) skip lim tot = []"
    by (simp add: pagination_links_def)
  ultimately show ?thesis
    using createPagination_numbers [OF assms] by blast
qed

theorem createPagination_always_sets_links_witness:
  "\<exists>links. createPagination short_page =
             Inr (short_page\<lparr>hook_result :=
                    JObj [(''total'', JNum 5), (''limit'', JNum 10), (''skip'', JNum 0),
                          (''data'', JArr []), (''links'', JObj links)]\<rparr>)
         \<and> links = []"
  using createPagination_always_sets_links [of short_page _ 0 10 5]
  by (simp add: short_page_def)

subsection \<open>Deduplication\<close>

lemma set_own_keys: "set (own_keys kvs) = fst ` set kvs"
  by (auto simp: own_keys_def Let_def)

lemma distinct_own_keys: "distinct (map fst kvs) \<Longrightarrow> distinct (own_keys kvs)"
  by (auto simp: own_keys_def Let_def)

lemma store_unique_defined:
  "item \<noteq> JNull \<Longrightarrow> item \<noteq> JUndefined \<Longrightarrow>
   store_unique item u = Inr (put (id_key item) item u)"
  by (cases item) (simp_all add: store_unique_def id_key_def)

lemma efold_store_unique:
  "JNull \<notin> set xs \<Longrightarrow> JUndefined \<notin> set xs \<Longrightarrow>
   efold store_unique xs u = Inr (foldl (\<lambda>u x. put (id_key x) x u) u xs)"
  by (induction xs arbitrary: u) (auto simp: store_unique_defined)

lemma foldl_put_update:
  "''__proto__'' \<notin> id_key ` set xs \<Longrightarrow>
   foldl (\<lambda>u x. put (id_key x) x u) u xs = foldl (\<lambda>u x. AList.update (id_key x) x u) u xs"
  by (induction xs arbitrary: u) (auto simp: put_def)

lemma distinct_stored:
  "distinct (map fst u) \<Longrightarrow> distinct (map fst (foldl (\<lambda>u x. AList.update (id_key x) x u) u xs))"
  by (induction xs arbitrary: u) (simp_all add: distinct_update)

lemma keys_stored:
  "fst ` set (foldl (\<lambda>u x. AList.update (id_key x) x u) u xs) = fst ` set u \<union> id_key ` set xs"
  by (induction xs arbitrary: u) (auto simp: dom_update)

lemma stored_is_last:
  "map_of (foldl (\<lambda>u x. AList.update (id_key x) x u) [] xs) k = Some v \<Longrightarrow>
   \<exists>before after. xs = before @ v # after \<and> id_key v = k \<and> k \<notin> id_key ` set after"
proof (induction xs arbitrary: v rule: rev_induct)
  case Nil
  then show ?case by simp
next
  case (snoc x xs)
  show ?case
  proof (cases "k = id_key x")
    case True
    with snoc.prems have "v = x" by (simp add: update_conv')
    with True show ?thesis
      by (intro exI [of _ xs] exI [of _ "[]"]) simp
  next
    case False
    with snoc.prems have "map_of (foldl (\<lambda>u x. AList.update (id_key x) x u) [] xs) k = Some v"
      by (simp add: update_conv')
    from snoc.IH [OF this] obtain before after
      where "xs = before @ v # after" "id_key v = k" "k \<notin> id_key ` set after" by blast
    with False have "xs @ [x] = before @ v # (after @ [x]) \<and> id_key v = k
        \<and> k \<notin> id_key ` set (after @ [x])" by auto
    then show ?thesis by blast
  qed
qed

lemma one_entry_per_key:
  "distinct (map f ys) \<Longrightarrow> k \<in> set (map f ys) \<Longrightarrow> length (filter (\<lambda>y. f y = k) ys) = 1"
proof (induction ys)
  case Nil
  then show ?case by simp
next
  case (Cons y ys)
  show ?case
  proof (cases "f y = k")
    case True
    from Cons.prems(1) have "f y \<notin> f ` set ys" by simp
    with True have "\<forall>z \<in> set ys. f z \<noteq> k" by blast
    then have "filter (\<lambda>y. f y = k) ys = []"
      by (simp add: filter_empty_conv)
    with True show ?thesis by simp
  next
    case False
    with Cons show ?thesis by auto
  qed
qed

text \<open>
  C5 (as amended). On a sequence of resource objects (no \<^verbatim>\<open>null\<close> or \<^verbatim>\<open>undefined\<close>
  entry, on which reading \<^verbatim>\<open>item.id\<close> throws) none of whose identifiers has the string
  form \<^verbatim>\<open>__proto__\<close>, \<^verbatim>\<open>removeDuplicateRecords\<close> returns a sequence with exactly one
  entry per string form of an identifier of the input: the keys of the result are
  pairwise distinct and are the keys of the input, every entry of the input has exactly
  one entry of the result with its key, and every entry of the result is the last entry
  of the input with its key. So a related resource that was accumulated from two parents
  is listed once. The identity is the property key, the string form of the identifier.
\<close>

theorem removeDuplicateRecords_unique:
  assumes "JNull \<notin> set collection" and "JUndefined \<notin> set collection"
    and "''__proto__'' \<notin> set (map id_key collection)"
  shows "\<exists>result. removeDuplicateRecords collection = Inr result
           \<and> distinct (map id_key result)
           \<and> set (map id_key result) = set (map id_key collection)
           \<and> (\<forall>item \<in> set collection.
                 length (filter (\<lambda>entry. id_key entry = id_key item) result) = 1)
           \<and> (\<forall>item \<in> set result. \<exists>before after.
                 collection = before @ item # after \<and> id_key item \<notin> set (map id_key after))"
proof -
  define u where "u = foldl (\<lambda>u x. AList.update (id_key x) x u) [] collection"
  define result where "result = map (own u) (own_keys u)"
  have "foldl (\<lambda>u x. put (id_key x) x u) [] collection = u"
    unfolding u_def using assms(3) by (intro foldl_put_update) simp
  then have run: "removeDuplicateRecords collection = Inr result"
    using assms(1,2) by (simp add: removeDuplicateRecords_def efold_store_unique result_def)
  have dist: "distinct (map fst u)"
    unfolding u_def by (rule distinct_stored) simp
  have last: "\<exists>before after. collection = before @ own u k # after \<and> id_key (own u k) = k
                 \<and> k \<notin> id_key ` set after" if "k \<in> set (own_keys u)" for k
  proof -
    from that have "k \<in> fst ` set u" by (simp add: set_own_keys)
    then obtain v where v: "map_of u k = Some v"
      by (metis domD dom_map_of_conv_image_fst)
    then have "own u k = v" by (simp add: own_def)
    with stored_is_last [of collection k v] v show ?thesis by (simp add: u_def)
  qed
  have keys: "map id_key result = own_keys u"
    unfolding result_def using last by (auto simp: map_idI comp_def intro!: map_idI)
  have d: "distinct (map id_key result)"
    using keys dist by (simp add: distinct_own_keys)
  have e: "set (map id_key result) = set (map id_key collection)"
    using keys by (simp add: set_own_keys u_def keys_stored)
  have "length (filter (\<lambda>entry. id_key entry = id_key item) result) = 1"
    if "item \<in> set collection" for item
  proof -
    from that e have "id_key item \<in> set (map id_key result)" by auto
    with d show ?thesis by (rule one_entry_per_key)
  qed
  moreover have "\<exists>before after.
      collection = before @ item # after \<and> id_key item \<notin> set (map id_key after)"
    if "item \<in> set result" for item
  proof -
    from that obtain k where "k \<in> set (own_keys u)" and "item = own u k"
      by (auto simp: result_def)
    with last [of k] show ?thesis by fastforce
  qed
  ultimately show ?thesis using run d e by blast
qed

text \<open>
  The claim as stated fails: the numeric identifier \<^verbatim>\<open>1\<close> and the string identifier
  \<^verbatim>\<open>'1'\<close> are two identifier values and one property key, so the two records leave one
  entry.
\<close>

theorem removeDuplicateRecords_unique_counterexample:
  "JNum 1 \<noteq> JStr ''1''
   \<and> removeDuplicateRecords
       [JObj [(''type'', JStr ''topics''), (''id'', JNum 1)],
        JObj [(''type'', JStr ''tags''), (''id'', JStr ''1'')]] =
     Inr [JObj [(''type'', JStr ''tags''), (''id'', JStr ''1'')]]"
  by (simp add: removeDuplicateRecords_def store_unique_def put_def own_keys_def
        is_array_index_def is_digit_def nat_of_digits_def digit_val_def
        show_int_def show_nat.simps digit_char_def)

text \<open>
  The related topic reached from two parents is listed once, in its later form.
\<close>

theorem removeDuplicateRecords_unique_witness:
  "JNull \<notin> set included_twice \<and> JUndefined \<notin> set included_twice
   \<and> ''__proto__'' \<notin> set (map id_key included_twice)
   \<and> removeDuplicateRecords included_twice =
       Inr [JObj [(''type'', JStr ''topics''), (''id'', JStr ''sports''),
                  (''attributes'', JObj [(''name'', JStr ''Sport'')])],
            JObj [(''type'', JStr ''topics''), (''id'', JStr ''music''),
                  (''attributes'', JObj [(''name'', JStr ''Music'')])]]"
  using removeDuplicateRecords_unique [of included_twice]
  by (simp add: included_twice_def removeDuplicateRecords_def store_unique_def put_def
        id_key_def own_keys_def is_array_index_def is_digit_def)

text \<open>An item whose key is \<^verbatim>\<open>__proto__\<close> leaves no entry.\<close>

lemma removeDuplicateRecords_proto:
  "removeDuplicateRecords [JObj [(''type'', JStr ''topics''), (''id'', JStr ''__proto__'')]] = Inr []"
  by (simp add: removeDuplicateRecords_def store_unique_def put_def own_keys_def)

subsection \<open>The plain-object serializer\<close>

lemma efold_copy_attribute:
  "\<exists>attributes. efold (copy_attribute (JObj kvs)) ks a = Inr attributes"
  by (induction ks arbitrary: a) (simp_all add: copy_attribute_def)



subsection \<open>The relationship resolver\<close>

text \<open>
  The reference that \<^verbatim>\<open>createRelationshipObject\<close> builds from the value embedded under
  \<^verbatim>\<open>include.as\<close>: a sequence of references for a sequence, one reference for an object,
  and \<^verbatim>\<open>null\<close> for everything else, an absent value included.
\<close>

lemma createRelationshipObject_reference:
  "createRelationshipObject inc (JObj kvs) =
     (case own kvs (inc_as inc) of
        JArr records \<Rightarrow> ebind (emap (relatedItem inc) records) (\<lambda>results. Inr (JArr results))
      | JObj r \<Rightarrow> Inr (JObj (put (targetKey (inc_association inc))
                                (own r (targetKey (inc_association inc)))
                                [(''type'', JStr (model_name (inc_model inc)))]))
      | _ \<Rightarrow> Inr JNull)"
  by (simp add: createRelationshipObject_def relatedItem_def split: jsval.splits)

lemma emap_relatedItem:
  "JNull \<notin> set records \<Longrightarrow> JUndefined \<notin> set records \<Longrightarrow>
   emap (relatedItem inc) records =
     Inr (map (\<lambda>r. JObj (put (targetKey (inc_association inc))
                           (case get_prop r (targetKey (inc_association inc)) of
                              Inr v \<Rightarrow> v | Inl e \<Rightarrow> JUndefined)
                           [(''type'', JStr (model_name (inc_model inc)))])) records)"
proof (induction records)
  case Nil
  then show ?case by simp
next
  case (Cons r records)
  then show ?case by (cases r) (simp_all add: relatedItem_def)
qed

text \<open>
  For an embedded \<^verbatim>\<open>null\<close> the resolver only removes the two fields: nothing is
  included and no entry is recorded under \<^verbatim>\<open>relationships\<close>.
\<close>

lemma parseRelationships_null:
  assumes "own kvs (inc_as inc) = JNull"
  shows "parseRelationships e inc (JObj kvs, includedData) =
           Inr (JObj (AList.delete (inc_as inc)
                        (AList.delete (foreignKey (inc_association inc)) kvs)),
                includedData)"
  using assms by (simp add: createRelationshipObject_def parseRelationships_def)

text \<open>
  C7. The claim holds for \<^verbatim>\<open>createRelationshipObject\<close>, not for the resolver: when the
  parent has no value under \<^verbatim>\<open>include.as\<close> the reference is \<^verbatim>\<open>null\<close>, but
  \<^verbatim>\<open>parseRelationships\<close> compares the value with \<^verbatim>\<open>null\<close> only, goes on to read
  \<^verbatim>\<open>data[include.as].id\<close> of the undefined value, and throws a \<^verbatim>\<open>TypeError\<close>,
  whatever the serializer is.
\<close>

theorem parseRelationships_absent:
  assumes "own kvs (inc_as inc) = JUndefined"
  shows "createRelationshipObject inc (JObj kvs) = Inr JNull
         \<and> parseRelationships e inc (JObj kvs, includedData) = Inl TypeError"
  using assms
  by (simp add: createRelationshipObject_def parseRelationships_def include_related_def)

theorem parseRelationships_absent_witness:
  "own orphan_topic (inc_as parent_include) = JUndefined
   \<and> createRelationshipObject parent_include (JObj orphan_topic) = Inr JNull
   \<and> parseRelationships example_env parent_include (JObj orphan_topic, []) = Inl TypeError"
  using parseRelationships_absent [of orphan_topic parent_include example_env "[]"]
  by (simp add: orphan_topic_def parent_include_def)

subsection \<open>The fallback of \<^verbatim>\<open>find\<close>\<close>

lemma jsonapifyViaFind_fallback_many:
  assumes "hook_service_Model h = None" and "hook_result h = JArr items" and "length items > 1"
    and "emap (\<lambda>item. serializePlainObject e item options h) items = Inr ds"
  shows "jsonapifyViaFind e h options = Inr (h\<lparr>hook_result := JObj [(''data'', JArr ds)]\<rparr>)"
  using assms by (simp add: jsonapifyViaFind_def)

lemma jsonapifyViaFind_fallback_record:
  assumes "hook_service_Model h = None" and "hook_result h = JObj kvs" and "kvs \<noteq> []"
    and "serializePlainObject e (JObj kvs) options h = Inr d"
  shows "jsonapifyViaFind e h options = Inr (h\<lparr>hook_result := JObj [(''data'', JArr [d])]\<rparr>)"
  using assms by (simp add: jsonapifyViaFind_def own_keys_nonempty)

lemma jsonapifyViaFind_fallback_empty:
  assumes "hook_service_Model h = None" and "hook_result h = JArr [] \<or> hook_result h = JObj []"
  shows "jsonapifyViaFind e h options = Inr (h\<lparr>hook_result := JObj [(''data'', JArr [])]\<rparr>)"
  using assms by (auto simp: jsonapifyViaFind_def own_keys_def)

text \<open>
  C4. The claim fails for a sequence of one element: the first branch of the fallback
  asks for more than one element and the second for a value that is not a sequence, so a
  single-element sequence falls to the last branch and \<^verbatim>\<open>data\<close> is empty; the element
  is not serialized. (The three lemmas above are the parts of the claim that hold.)
\<close>

theorem jsonapifyViaFind_single_element:
  "jsonapifyViaFind e (h\<lparr>hook_service_Model := None, hook_result := JArr [item]\<rparr>) options =
     Inr (h\<lparr>hook_service_Model := None, hook_result := JObj [(''data'', JArr [])]\<rparr>)"
  by (simp add: jsonapifyViaFind_def)

theorem jsonapifyViaFind_single_element_witness:
  "jsonapifyViaFind example_env single_find \<lparr>identifierKey = None, typeKey = None\<rparr> =
     Inr (single_find\<lparr>hook_result := JObj [(''data'', JArr [])]\<rparr>)"
  using jsonapifyViaFind_single_element
          [where e = example_env and h = single_find
             and item = "JObj [(''title'', JStr ''Cars'')]"
             and options = "\<lparr>identifierKey = None, typeKey = None\<rparr>"]
  by (simp add: single_find_def)

subsection \<open>The document assembler\<close>

text \<open>
  With an empty include list \<^verbatim>\<open>jsonapify\<close> is its second half, which is how the nested
  call of the resolver is embedded.
\<close>

lemma jsonapify_empty_include:
  "jsonapify e data_v m selfUrl (Some \<lparr>ctx_include = Some []\<rparr>) = jsonapify_serialize e data_v m selfUrl []"
  by (simp add: jsonapify_def process_includes_def)

lemma idAttribute_no_primary:
  assumes "list_all (\<lambda>ad. \<not> primaryKey (snd ad)) (model_attributes m)"
  shows "idAttribute m = None"
proof -
  have "\<not> byPrimaryKey m a" for a
  proof (cases "map_of (model_attributes m) a")
    case None
    then show ?thesis by (simp add: byPrimaryKey_def)
  next
    case (Some d)
    then have "(a, d) \<in> set (model_attributes m)" by (rule map_of_SomeD)
    with assms have "\<not> primaryKey d" by (auto simp: list_all_iff)
    with Some show ?thesis by (simp add: byPrimaryKey_def)
  qed
  then show ?thesis by (simp add: idAttribute_def)
qed

text \<open>
  Both entry points hand the assembler the JSON text of the instance, a string, which has
  no property under \<^verbatim>\<open>include.as\<close> (unless that is \<^verbatim>\<open>length\<close> or an index): with a
  non-empty include list the resolver then reads \<^verbatim>\<open>id\<close> of \<^verbatim>\<open>undefined\<close> and the
  assembler throws.
\<close>

lemma jsonapify_text_include_throws:
  assumes "inc_as inc \<noteq> ''length''" and "\<not> is_array_index (inc_as inc)"
  shows "jsonapify e (JStr t) m selfUrl (Some \<lparr>ctx_include = Some (inc # incs)\<rparr>) = Inl TypeError"
  using assms
  by (simp add: jsonapify_def process_includes_def parseRelationships_def
        createRelationshipObject_def include_related_def)

text \<open>
  C2 (as amended). For model metadata none of whose attributes is flagged as primary key
  the assembler raises no schema error and guesses nothing: \<^verbatim>\<open>idAttribute\<close> is
  undefined, no attribute is excluded, and the serializer is called with every attribute
  name followed by \<^verbatim>\<open>relationships\<close>. Whenever the include list is processed, the
  serializer returns and the hoist reads its document, the assembler returns that
  document, the serializer's links and the included resources.
\<close>

theorem jsonapify_without_primary_key:
  assumes "list_all (\<lambda>ad. \<not> primaryKey (snd ad)) (model_attributes m)"
    and "process_includes e data_v c = Inr (data', includedData)"
    and "env_JSONAPISerializer e (model_name m) data'
           \<lparr>topLevelLinks_self = ''/'' @ selfUrl,
            so_attributes = own_keys (model_attributes m) @ [''relationships'']\<rparr> = Inr json"
    and "hoist_relationships (own json ''data'') = Inr document"
  shows "idAttribute m = None
         \<and> jsonapify e data_v m selfUrl (Some c) =
             Inr \<lparr>res_document = document, res_links = own json ''links'',
                  res_related = (if includedData \<noteq> [] then Some includedData else None)\<rparr>"
  using assms idAttribute_no_primary [OF assms(1)]
  by (simp add: jsonapify_def jsonapify_serialize_def serializer_attributes_def byExcluded_def)

text \<open>
  The claim as stated fails: for a model without a primary key the assembler returns a
  document.
\<close>

theorem jsonapify_without_primary_key_counterexample: "list_all (\<lambda>ad. \<not> primaryKey (snd ad)) (model_attributes keyless_model)
  \<and> jsonapify example_env (JObj [(''level'', JStr ''warn''), (''message'', JStr ''disk'')]) keyless_model ''logs/undefined''
      (Some \<lparr>ctx_include = None\<rparr>) =
    Inr \<lparr>res_document = JObj [(''type'', JStr ''logs''), (''id'', JStr ''undefined''),
             (''attributes'', JObj [(''level'', JStr ''warn''), (''message'', JStr ''disk'')])],
         res_links = JObj [(''self'', JStr ''/logs/undefined'')], res_related = None\<rparr>"
  by (simp add: keyless_model_def example_env_def jsonapify_def process_includes_def jsonapify_serialize_def
       serializer_attributes_def idAttribute_def byPrimaryKey_def byExcluded_def own_keys_def
       is_array_index_def is_digit_def spec_serializer_def spec_resource_def hoist_relationships_def
       show_nat.simps digit_char_def)

theorem jsonapify_without_primary_key_witness:
  "list_all (\<lambda>ad. \<not> primaryKey (snd ad)) (model_attributes keyless_model)
   \<and> jsonapify example_env (JObj [(''level'', JStr ''info''), (''message'', JStr ''started'')])
       keyless_model ''logs/undefined'' (Some \<lparr>ctx_include = Some []\<rparr>) =
     Inr \<lparr>res_document = JObj [(''type'', JStr ''logs''), (''id'', JStr ''undefined''),
             (''attributes'', JObj [(''level'', JStr ''info''), (''message'', JStr ''started'')])],
          res_links = JObj [(''self'', JStr ''/logs/undefined'')], res_related = None\<rparr>"
  using jsonapify_without_primary_key
    [where m = keyless_model and e = example_env
       and data_v = "JObj [(''level'', JStr ''info''), (''message'', JStr ''started'')]"
       and c = "\<lparr>ctx_include = Some []\<rparr>"
       and data' = "JObj [(''level'', JStr ''info''), (''message'', JStr ''started'')]"
       and includedData = "[]" and selfUrl = "''logs/undefined''"
       and json = "[(''links'', JObj [(''self'', JStr ''/logs/undefined'')]),
                    (''data'', JObj [(''type'', JStr ''logs''), (''id'', JStr ''undefined''),
                       (''attributes'', JObj [(''level'', JStr ''info''),
                                              (''message'', JStr ''started'')])])]"
       and document = "JObj [(''type'', JStr ''logs''), (''id'', JStr ''undefined''),
                       (''attributes'', JObj [(''level'', JStr ''info''),
                                              (''message'', JStr ''started'')])]"]
  by (simp add: keyless_model_def example_env_def process_includes_def own_keys_def
        is_array_index_def is_digit_def spec_serializer_def spec_resource_def
        hoist_relationships_def)

text \<open>What the hoist can do to a document: nothing, or move the field of one object.\<close>

lemma hoist_relationships_cases:
  assumes "hoist_relationships d = Inr d'"
  shows "d' = d \<or> (\<exists>kvs a rel. d = JObj kvs \<and> own kvs ''attributes'' = JObj a
            \<and> d' = JObj (AList.update ''attributes'' (JObj (AList.delete ''relationships'' a))
                           (AList.update ''relationships'' rel kvs)))"
proof (cases d)
  case (JObj kvs)
  show ?thesis
  proof (cases "own kvs ''attributes''")
    case (JObj a)
    with \<open>d = JObj kvs\<close> assms show ?thesis
      by (auto simp: hoist_relationships_def split: if_splits)
  qed (use \<open>d = JObj kvs\<close> assms in \<open>auto simp: hoist_relationships_def split: if_splits\<close>)
qed (use assms in \<open>auto simp: hoist_relationships_def split: if_splits\<close>)

lemma attribute_keys_update:
  "attribute_keys (JObj (AList.update ''attributes'' (JObj a) kvs)) = map fst a"
  by (simp add: attribute_keys_def own_update)

lemma hoist_attribute_keys:
  assumes "hoist_relationships d = Inr d'" and "r' \<in> set (resources_of d')"
  shows "\<exists>r \<in> set (resources_of d). set (attribute_keys r') \<subseteq> set (attribute_keys r)"
proof -
  from hoist_relationships_cases [OF assms(1)] show ?thesis
  proof
    assume "d' = d"
    with assms(2) show ?thesis by auto
  next
    assume "\<exists>kvs a rel. d = JObj kvs \<and> own kvs ''attributes'' = JObj a
            \<and> d' = JObj (AList.update ''attributes'' (JObj (AList.delete ''relationships'' a))
                           (AList.update ''relationships'' rel kvs))"
    then obtain kvs a rel where d: "d = JObj kvs" and a: "own kvs ''attributes'' = JObj a"
      and d': "d' = JObj (AList.update ''attributes'' (JObj (AList.delete ''relationships'' a))
                           (AList.update ''relationships'' rel kvs))" by blast
    from d' assms(2) have "r' = d'" by (simp add: resources_of_def)
    with d' have r': "set (attribute_keys r') = fst ` set (AList.delete ''relationships'' a)"
      by (simp only: attribute_keys_update set_map)
    from d a have keys: "set (attribute_keys d) = fst ` set a"
      by (simp add: attribute_keys_def)
    have mem: "d \<in> set (resources_of d)" using d by (simp add: resources_of_def)
    have "set (attribute_keys r') \<subseteq> set (attribute_keys d)"
      unfolding r' keys by (rule dom_delete_subset)
    with mem show ?thesis by (rule rev_bexI)
  qed
qed

lemma jsonapify_Inr_D:
  assumes "jsonapify e data_v m selfUrl context_v = Inr res"
  shows "\<exists>data' json. env_JSONAPISerializer e (model_name m) data'
           \<lparr>topLevelLinks_self = ''/'' @ selfUrl, so_attributes = serializer_attributes m\<rparr> = Inr json
         \<and> hoist_relationships (own json ''data'') = Inr (res_document res)"
proof -
  from assms obtain c where c: "context_v = Some c"
    by (cases context_v) (simp_all add: jsonapify_def)
  with assms obtain data' includedData where
    "jsonapify_serialize e data' m selfUrl includedData = Inr res"
    by (auto simp: jsonapify_def ebind_eq_Inr)
  then obtain json document where
    ser: "env_JSONAPISerializer e (model_name m) data'
           \<lparr>topLevelLinks_self = ''/'' @ selfUrl, so_attributes = serializer_attributes m\<rparr> = Inr json"
    and hoist: "hoist_relationships (own json ''data'') = Inr document"
    and res: "res = \<lparr>res_document = document, res_links = own json ''links'',
                     res_related = (if includedData \<noteq> [] then Some includedData else None)\<rparr>"
    by (auto simp: jsonapify_serialize_def ebind_eq_Inr)
  from res have "res_document res = document" by simp
  with ser hoist show ?thesis
    by (intro exI [of _ data'] exI [of _ json]) simp
qed

text \<open>
  C3 (as amended). When the serializer returns a single resource object whose
  \<^verbatim>\<open>attributes\<close> hold a truthy \<^verbatim>\<open>relationships\<close> value (the injected field is an
  object, hence truthy), the assembler returns the resource with that value at its top
  level and with \<^verbatim>\<open>attributes\<close> no longer holding the key. When the serializer returns
  a collection, the assembler returns the collection as it is: nothing is hoisted out of
  its elements.
\<close>

theorem jsonapify_hoist:
  assumes "process_includes e data_v c = Inr (data', includedData)"
    and "env_JSONAPISerializer e (model_name m) data'
           \<lparr>topLevelLinks_self = ''/'' @ selfUrl, so_attributes = serializer_attributes m\<rparr> = Inr json"
  shows "(own json ''data'' = JObj d \<and> own d ''attributes'' = JObj a \<and> truthy (own a ''relationships'')
          \<longrightarrow> jsonapify e data_v m selfUrl (Some c) =
                Inr \<lparr>res_document =
                       JObj (AList.update ''attributes'' (JObj (AList.delete ''relationships'' a))
                               (AList.update ''relationships'' (own a ''relationships'') d)),
                     res_links = own json ''links'',
                     res_related = (if includedData \<noteq> [] then Some includedData else None)\<rparr>
              \<and> ''relationships'' \<notin> fst ` set (AList.delete ''relationships'' a))
       \<and> (own json ''data'' = JArr rs
          \<longrightarrow> jsonapify e data_v m selfUrl (Some c) =
                Inr \<lparr>res_document = JArr rs, res_links = own json ''links'',
                     res_related = (if includedData \<noteq> [] then Some includedData else None)\<rparr>)"
proof (intro conjI impI)
  assume "own json ''data'' = JObj d \<and> own d ''attributes'' = JObj a
          \<and> truthy (own a ''relationships'')"
  with assms show "jsonapify e data_v m selfUrl (Some c) =
                Inr \<lparr>res_document =
                       JObj (AList.update ''attributes'' (JObj (AList.delete ''relationships'' a))
                               (AList.update ''relationships'' (own a ''relationships'') d)),
                     res_links = own json ''links'',
                     res_related = (if includedData \<noteq> [] then Some includedData else None)\<rparr>"
    by (simp add: jsonapify_def jsonapify_serialize_def hoist_relationships_def)
next
  show "''relationships'' \<notin> fst ` set (AList.delete ''relationships'' a)"
    by (rule delete_notin_dom)
next
  assume "own json ''data'' = JArr rs"
  with assms show "jsonapify e data_v m selfUrl (Some c) =
                Inr \<lparr>res_document = JArr rs, res_links = own json ''links'',
                     res_related = (if includedData \<noteq> [] then Some includedData else None)\<rparr>"
    by (simp add: jsonapify_def jsonapify_serialize_def hoist_relationships_def)
qed

text \<open>
  The claim as stated fails for the elements of a collection: a record that carries a
  \<^verbatim>\<open>relationships\<close> field keeps it under \<^verbatim>\<open>attributes\<close>.
\<close>

theorem jsonapify_hoist_counterexample: "jsonapify example_env (JArr [JObj [(''id'', JNum 1), (''name'', JStr ''Cars''),
         (''relationships'', JObj [(''parentTopic'', JObj [(''data'', JNull)])])]]) topics_model ''topics''
      (Some \<lparr>ctx_include = Some []\<rparr>) =
    Inr \<lparr>res_document = JArr [JObj [(''type'', JStr ''topics''), (''id'', JStr ''1''),
             (''attributes'', JObj [(''name'', JStr ''Cars''),
                  (''relationships'', JObj [(''parentTopic'', JObj [(''data'', JNull)])])])]],
         res_links = JObj [(''self'', JStr ''/topics'')], res_related = None\<rparr>"
  by (simp add: topics_model_def example_env_def jsonapify_def process_includes_def jsonapify_serialize_def
       serializer_attributes_def idAttribute_def byPrimaryKey_def byExcluded_def own_keys_def
       is_array_index_def is_digit_def spec_serializer_def spec_resource_def hoist_relationships_def
       show_int_def show_nat.simps digit_char_def)

lemma process_includes_sports_cars:
  "process_includes example_env sports_cars \<lparr>ctx_include = Some [parent_include]\<rparr> =
   Inr (JObj [(''id'', JStr ''sports-cars''), (''name'', JStr ''Cars''),
          (''relationships'', JObj [(''parentTopic'', JObj [(''data'', JObj [(''type'', JStr ''topics''), (''id'', JStr ''sports'')])])])],
        [JObj [(''type'', JStr ''topics''), (''id'', JStr ''sports''),
               (''attributes'', JObj [(''name'', JStr ''Sports''), (''parentTopicId'', JNull)]),
               (''links'', JObj [(''self'', JStr ''/topics/sports'')])]])"
  by (simp add: process_includes_def parseRelationships_def include_related_def createRelationshipObject_def
       relatedItem_def relationshipName_def jsonapify_serialize_def serializer_attributes_def idAttribute_def
       byPrimaryKey_def byExcluded_def own_keys_def is_array_index_def is_digit_def
       example_env_def spec_serializer_def spec_resource_def hoist_relationships_def assign_def
       put_def sports_cars_def parent_include_def topics_model_def)

text \<open>The record of the README with its parent topic included.\<close>

theorem jsonapify_hoist_witness:
  "jsonapify example_env sports_cars topics_model ''topics/sports-cars''
     (Some \<lparr>ctx_include = Some [parent_include]\<rparr>) =
   Inr \<lparr>res_document =
          JObj [(''type'', JStr ''topics''), (''id'', JStr ''sports-cars''),
                (''attributes'', JObj [(''name'', JStr ''Cars'')]),
                (''relationships'',
                   JObj [(''parentTopic'',
                          JObj [(''data'', JObj [(''type'', JStr ''topics''),
                                                 (''id'', JStr ''sports'')])])])],
        res_links = JObj [(''self'', JStr ''/topics/sports-cars'')],
        res_related =
          Some [JObj [(''type'', JStr ''topics''), (''id'', JStr ''sports''),
                      (''attributes'', JObj [(''name'', JStr ''Sports''), (''parentTopicId'', JNull)]),
                      (''links'', JObj [(''self'', JStr ''/topics/sports'')])]]\<rparr>"
  using jsonapify_hoist
    [OF process_includes_sports_cars,
     where m = topics_model and selfUrl = "''topics/sports-cars''"
       and json = "[(''links'', JObj [(''self'', JStr ''/topics/sports-cars'')]),
                    (''data'', JObj [(''type'', JStr ''topics''), (''id'', JStr ''sports-cars''),
                       (''attributes'', JObj [(''name'', JStr ''Cars''),
                          (''relationships'',
                             JObj [(''parentTopic'',
                                    JObj [(''data'', JObj [(''type'', JStr ''topics''),
                                                           (''id'', JStr ''sports'')])])])])])]"
       and d = "[(''type'', JStr ''topics''), (''id'', JStr ''sports-cars''),
                 (''attributes'', JObj [(''name'', JStr ''Cars''),
                    (''relationships'',
                       JObj [(''parentTopic'',
                              JObj [(''data'', JObj [(''type'', JStr ''topics''),
                                                     (''id'', JStr ''sports'')])])])])]"
       and a = "[(''name'', JStr ''Cars''),
                 (''relationships'',
                    JObj [(''parentTopic'',
                           JObj [(''data'', JObj [(''type'', JStr ''topics''),
                                                  (''id'', JStr ''sports'')])])])]"]
  by (simp add: example_env_def spec_serializer_def spec_resource_def serializer_attributes_def
        idAttribute_def byPrimaryKey_def byExcluded_def own_keys_def is_array_index_def
        is_digit_def topics_model_def AList.delete_eq)

text \<open>The dash-casing reference serializer renders the selection through \<open>dasherize\<close>.\<close>

lemma keys_foldl_put:
  "fst ` set (foldl (\<lambda>attributes a. put (kf a) (g a) attributes) o0 xs) \<subseteq> fst ` set o0 \<union> kf ` set xs"
proof (induction xs arbitrary: o0)
  case Nil
  then show ?case by simp
next
  case (Cons x xs)
  have "fst ` set (put (kf x) (g x) o0) \<subseteq> fst ` set o0 \<union> {kf x}"
    by (auto simp: put_def dom_update)
  with Cons [of "put (kf x) (g x) o0"] show ?case by auto
qed

lemma attribute_keys_dash_resource:
  "set (attribute_keys (dash_resource type_name attrs x)) \<subseteq> dasherize ` set attrs"
proof (cases "x = JNull \<or> x = JUndefined")
  case True
  then show ?thesis by (auto simp: dash_resource_def attribute_keys_def)
next
  case False
  have "fst ` set (foldl (\<lambda>attributes a. put (dasherize a) (own (own_entries x) a) attributes) []
                     (filter (\<lambda>a. map_of (own_entries x) a \<noteq> None) attrs))
        \<subseteq> dasherize ` set attrs"
    using keys_foldl_put [of dasherize "own (own_entries x)" "[]"
                             "filter (\<lambda>a. map_of (own_entries x) a \<noteq> None) attrs"]
    by auto
  with False show ?thesis by (simp add: dash_resource_def attribute_keys_def)
qed

lemma dash_serializer_data:
  "dash_serializer type_name records opts = Inr json \<Longrightarrow>
   own json ''data'' = (case records of
                          JArr rs \<Rightarrow> JArr (map (dash_resource type_name (so_attributes opts)) rs)
                        | r \<Rightarrow> dash_resource type_name (so_attributes opts) r)"
  unfolding dash_serializer_def by (cases records) auto

lemma resources_of_dash_resource:
  "resources_of (dash_resource type_name attrs x) = [dash_resource type_name attrs x]"
  by (simp add: resources_of_def dash_resource_def)

lemma dash_serializer_resources:
  assumes "dash_serializer type_name records opts = Inr json"
    and "r \<in> set (resources_of (own json ''data''))"
  shows "\<exists>x. r = dash_resource type_name (so_attributes opts) x"
proof (cases "\<exists>rs. records = JArr rs")
  case True
  then obtain rs where "records = JArr rs" by blast
  with assms(2) show ?thesis
    unfolding dash_serializer_data [OF assms(1)] by (auto simp: resources_of_def)
next
  case False
  then have "own json ''data'' = dash_resource type_name (so_attributes opts) records"
    unfolding dash_serializer_data [OF assms(1)] by (cases records) simp_all
  with assms(2) show ?thesis
    by (auto simp: resources_of_dash_resource)
qed

lemma dash_serializer_renders_selection: "renders_selection dasherize dash_serializer"
  unfolding renders_selection_def
  using dash_serializer_resources attribute_keys_dash_resource by blast

text \<open>
  C6 (as amended). Let \<open>pk\<close> be the attribute the assembler takes as primary key (the
  first one flagged), and let the serializer render the selection it is given through
  \<open>kf\<close>, as the dash-casing serializer of the hook does. If no attribute that the
  assembler selects is rendered under the name \<open>pk\<close> (no other attribute of the model,
  and not \<^verbatim>\<open>relationships\<close>, which is always selected), then no resource object of the
  returned document, single or element of a collection, has \<open>pk\<close> in its attributes
  mapping.
\<close>

theorem jsonapify_excludes_primary_key:
  assumes "idAttribute m = Some pk"
    and "renders_selection kf (env_JSONAPISerializer e)"
    and "list_all (\<lambda>a. a = pk \<or> kf a \<noteq> pk) (own_keys (model_attributes m))"
    and "kf ''relationships'' \<noteq> pk"
    and "jsonapify e data_v m selfUrl context_v = Inr res"
  shows "\<forall>r \<in> set (resources_of (res_document res)). pk \<notin> set (attribute_keys r)"
proof -
  have pk: "pk \<notin> kf ` set (serializer_attributes m)"
    using assms(1,3,4)
    by (auto simp: serializer_attributes_def byExcluded_def list_all_iff)
  from jsonapify_Inr_D [OF assms(5)] obtain data' json where
    ser: "env_JSONAPISerializer e (model_name m) data'
           \<lparr>topLevelLinks_self = ''/'' @ selfUrl, so_attributes = serializer_attributes m\<rparr> = Inr json"
    and hoist: "hoist_relationships (own json ''data'') = Inr (res_document res)" by blast
  have "pk \<notin> set (attribute_keys r')" if "r' \<in> set (resources_of (res_document res))" for r'
  proof -
    from hoist_attribute_keys [OF hoist that] obtain r where
      r: "r \<in> set (resources_of (own json ''data''))"
      and sub: "set (attribute_keys r') \<subseteq> set (attribute_keys r)"
      by blast
    from assms(2) ser r have "set (attribute_keys r) \<subseteq> kf ` set (serializer_attributes m)"
      unfolding renders_selection_def by fastforce
    with sub pk show ?thesis by blast
  qed
  then show ?thesis by blast
qed

text \<open>
  The claim as stated fails when a selected attribute is rendered under the primary
  key's name: when the primary key is named \<^verbatim>\<open>relationships\<close>, the name the assembler
  always appends to the selection, and, with dash-cased names, when the model has the
  primary key \<^verbatim>\<open>id\<close> and an attribute \<^verbatim>\<open>Id\<close>.
\<close>

theorem jsonapify_excludes_primary_key_counterexample:
  "idAttribute odd_model = Some ''relationships''
   \<and> jsonapify example_env
       (JArr [JObj [(''relationships'', JStr ''r1''), (''label'', JStr ''a'')]]) odd_model ''odd''
       (Some \<lparr>ctx_include = None\<rparr>) =
     Inr \<lparr>res_document =
            JArr [JObj [(''type'', JStr ''odd''), (''id'', JStr ''undefined''),
                        (''attributes'', JObj [(''label'', JStr ''a''),
                                               (''relationships'', JStr ''r1'')])]],
          res_links = JObj [(''self'', JStr ''/odd'')], res_related = None\<rparr>
   \<and> idAttribute twin_model = Some ''id''
   \<and> jsonapify dash_env (JObj [(''id'', JNum 7), (''Id'', JStr ''x'')]) twin_model ''twins/7''
       (Some \<lparr>ctx_include = None\<rparr>) =
     Inr \<lparr>res_document =
            JObj [(''type'', JStr ''twins''), (''id'', JStr ''7''),
                  (''attributes'', JObj [(''id'', JStr ''x'')])],
          res_links = JObj [(''self'', JStr ''/twins/7'')], res_related = None\<rparr>"
  by (simp add: odd_model_def twin_model_def example_env_def dash_env_def jsonapify_def
        process_includes_def jsonapify_serialize_def serializer_attributes_def idAttribute_def
        byPrimaryKey_def byExcluded_def own_keys_def is_array_index_def is_digit_def
        spec_serializer_def spec_resource_def dash_serializer_def dash_resource_def
        hoist_relationships_def put_def dasherize_def to_lower_def upper_case_def
        lower_case_def show_int_def show_nat.simps digit_char_def)

lemma jsonapify_dash_orphan_topic:
  "jsonapify dash_env (JObj orphan_topic) topics_model ''topics/sports''
     (Some \<lparr>ctx_include = None\<rparr>) =
   Inr \<lparr>res_document =
          JObj [(''type'', JStr ''topics''), (''id'', JStr ''sports''),
                (''attributes'', JObj [(''name'', JStr ''Sports''),
                                       (''parent-topic-id'', JNull)])],
        res_links = JObj [(''self'', JStr ''/topics/sports'')], res_related = None\<rparr>"
  by (simp add: jsonapify_def process_includes_def jsonapify_serialize_def
        example_env_def dash_env_def dash_serializer_def dash_resource_def
        serializer_attributes_def idAttribute_def byPrimaryKey_def byExcluded_def own_keys_def
        is_array_index_def is_digit_def topics_model_def orphan_topic_def
        hoist_relationships_def put_def dasherize_def to_lower_def upper_case_def
        lower_case_def)

theorem jsonapify_excludes_primary_key_witness:
  "idAttribute topics_model = Some ''id''
   \<and> renders_selection dasherize (env_JSONAPISerializer dash_env)
   \<and> list_all (\<lambda>a. a = ''id'' \<or> dasherize a \<noteq> ''id'') (own_keys (model_attributes topics_model))
   \<and> dasherize ''relationships'' \<noteq> ''id''
   \<and> ''id'' \<notin> set (attribute_keys
         (JObj [(''type'', JStr ''topics''), (''id'', JStr ''sports''),
                (''attributes'', JObj [(''name'', JStr ''Sports''),
                                       (''parent-topic-id'', JNull)])]))"
  using jsonapify_excludes_primary_key
    [where m = topics_model and pk = "''id''" and e = dash_env and kf = dasherize,
     OF _ _ _ _ jsonapify_dash_orphan_topic]
    dash_serializer_renders_selection
  by (simp add: example_env_def dash_env_def idAttribute_def byPrimaryKey_def own_keys_def
        is_array_index_def is_digit_def topics_model_def resources_of_def attribute_keys_def
        dasherize_def to_lower_def upper_case_def lower_case_def)

subsection \<open>The \<^verbatim>\<open>get\<close> entry point\<close>

lemma serializePlainObject_shape:
  assumes "env_stringify e (JObj kvs) = JStr s"
    and "hook_service_options h = JObj so"
  shows "\<exists>new_id new_type attributes.
              serializePlainObject e (JObj kvs) options h =
                Inr (JObj [(''id'', new_id), (''type'', new_type),
                           (''attributes'', JObj attributes),
                           (''links'', JObj [(''self'', JStr (''/'' @ hook_path h @ ''/''
                                                             @ to_string new_id))])])"
proof -
  obtain attributes where
    "efold (copy_attribute (JObj kvs))
       (filter (\<lambda>k. Some k \<noteq> identifierKey options \<and> Some k \<noteq> typeKey options) (own_keys kvs)) []
     = Inr attributes"
    using efold_copy_attribute by blast
  then show ?thesis
    using assms
    by (auto simp: serializePlainObject_def generateFauxId_def Let_def
             split: option.splits)
qed

text \<open>
  C8. The claim fails for a record of a service without a model: \<^verbatim>\<open>jsonapifyViaGet\<close>
  assigns \<^verbatim>\<open>data\<close> on the record itself, where the other branches build a new result.
  The resource under \<^verbatim>\<open>data\<close> is \<^verbatim>\<open>{id, type, attributes, links: {self}}\<close> as claimed,
  but the result is the record with all its own fields and \<^verbatim>\<open>data\<close> beside them, not
  \<^verbatim>\<open>{data}\<close> alone.
\<close>

theorem jsonapifyViaGet_plain_keeps_record:
  assumes "hook_service_Model h = None" and "hook_result h = JObj r"
    and "env_stringify e (JObj r) = JStr s" and "hook_service_options h = JObj so"
  shows "\<exists>new_id new_type attributes.
           jsonapifyViaGet e h options =
             Inr (h\<lparr>hook_result := JObj (AList.update ''data''
                    (JObj [(''id'', new_id), (''type'', new_type),
                           (''attributes'', JObj attributes),
                           (''links'', JObj [(''self'', JStr (''/'' @ hook_path h @ ''/''
                                                             @ to_string new_id))])]) r)\<rparr>)"
proof -
  obtain new_id new_type attributes where
    "serializePlainObject e (JObj r) options h =
       Inr (JObj [(''id'', new_id), (''type'', new_type), (''attributes'', JObj attributes),
                  (''links'', JObj [(''self'', JStr (''/'' @ hook_path h @ ''/''
                                                    @ to_string new_id))])])"
    using serializePlainObject_shape [OF assms(3,4)] by blast
  with assms(1,2) show ?thesis
    by (auto simp: jsonapifyViaGet_def)
qed

text \<open>
  The record \<^verbatim>\<open>{id: 1, title: 'Cars'}\<close> with \<^verbatim>\<open>identifierKey = 'id'\<close>: the result
  keeps \<^verbatim>\<open>id\<close> and \<^verbatim>\<open>title\<close> at its top level.
\<close>

theorem jsonapifyViaGet_plain_keeps_record_witness:
  "hook_service_Model car_get = None
   \<and> hook_result car_get = JObj [(''id'', JNum 1), (''title'', JStr ''Cars'')]
   \<and> jsonapifyViaGet example_env car_get \<lparr>identifierKey = Some ''id'', typeKey = None\<rparr> =
     Inr (car_get\<lparr>hook_result :=
            JObj [(''id'', JNum 1), (''title'', JStr ''Cars''),
                  (''data'', JObj [(''id'', JNum 1), (''type'', JStr ''topics''),
                                   (''attributes'', JObj [(''title'', JStr ''Cars'')]),
                                   (''links'', JObj [(''self'', JStr ''/topics/1'')])])]\<rparr>)"
  using jsonapifyViaGet_plain_keeps_record
          [where h = car_get and e = example_env
             and r = "[(''id'', JNum 1), (''title'', JStr ''Cars'')]"
             and options = "\<lparr>identifierKey = Some ''id'', typeKey = None\<rparr>"]
  by (simp add: car_get_def example_env_def jsonapifyViaGet_def serializePlainObject_def
        copy_attribute_def put_def own_keys_def is_array_index_def is_digit_def dasherize_def
        to_lower_def upper_case_def lower_case_def show_int_def show_nat.simps digit_char_def)

end
